theory Spec2Isabelle
  imports Complex_Main "HOL-Library.Sublist" "HOL-Library.Char_ord" "HOL-Library.List_Lexorder"
begin

section \<open>JavaScript primitives used by the sources\<close>

text \<open>
  Strings are lists of characters. The sources only ever inspect the characters
  \<open>,\<close>, \<open>"\<close>, newline, \<open>-\<close>, the decimal digits and the ASCII letters, so a
  character is modelled as an Isabelle \<open>char\<close>; \<open>toLowerCase\<close> is modelled on the
  ASCII letters and leaves every other character alone.
\<close>

definition isDigit :: "char \<Rightarrow> bool" where
  "isDigit c = (CHR ''0'' \<le> c \<and> c \<le> CHR ''9'')"

definition isUpperAZ :: "char \<Rightarrow> bool" where
  "isUpperAZ c = (CHR ''A'' \<le> c \<and> c \<le> CHR ''Z'')"

definition toLowerChar :: "char \<Rightarrow> char" where
  "toLowerChar c = (if isUpperAZ c then char_of (of_char c + (32::nat)) else c)"

definition toLowerCase :: "string \<Rightarrow> string" where
  "toLowerCase s = map toLowerChar s"

text \<open>\<open>haystack.includes(needle)\<close>: \<open>needle\<close> occurs as a contiguous substring.\<close>

fun includes_str :: "string \<Rightarrow> string \<Rightarrow> bool" where
  "includes_str [] needle = (needle = [])"
| "includes_str (c # cs) needle = (prefix needle (c # cs) \<or> includes_str cs needle)"

text \<open>\<open>xs.join(sep)\<close> on an array of strings.\<close>

fun join :: "string \<Rightarrow> string list \<Rightarrow> string" where
  "join sep [] = []"
| "join sep [x] = x"
| "join sep (x # y # ys) = x @ sep @ join sep (y # ys)"

text \<open>
  \<open>String(n)\<close> and \<open>n.toString()\<close> on an integer-valued number: its decimal
  digits. (From \<open>1e21\<close> on JavaScript writes a number with an exponent; the numbers
  rendered here are percents and day counts.)
\<close>

definition digit_char :: "nat \<Rightarrow> char" where
  "digit_char n = ''0123456789'' ! (n mod 10)"

function string_of_nat :: "nat \<Rightarrow> string" where
  "string_of_nat n =
     (if n < 10 then [digit_char n] else string_of_nat (n div 10) @ [digit_char (n mod 10)])"
  by pat_completeness auto
termination
  by (relation "measure id") auto

declare string_of_nat.simps [simp del]

definition string_of_int :: "int \<Rightarrow> string" where
  "string_of_int i = (if i < 0 then CHR ''-'' # string_of_nat (nat (- i)) else string_of_nat (nat i))"

text \<open>\<open>s.padStart(n, c)\<close> with a one-character pad string.\<close>

definition padStart :: "nat \<Rightarrow> char \<Rightarrow> string \<Rightarrow> string" where
  "padStart n c s = replicate (n - length s) c @ s"

text \<open>The value read back from a string of decimal digits.\<close>

definition digit_val :: "char \<Rightarrow> nat" where
  "digit_val c = of_char c - 48"

definition nat_of_digits :: "string \<Rightarrow> nat" where
  "nat_of_digits s = foldl (\<lambda>a c. 10 * a + digit_val c) 0 s"

text \<open>
  A thrown value: an \<open>Error\<close> object with its message, or any other value
  (for which \<open>err instanceof Error\<close> is false).
\<close>

datatype js_exn = JsError string | JsThrown

text \<open>
  A dynamically typed property value, as read by \<open>(record as any)[field]\<close>:
  a missing property reads as \<open>undefined\<close>.
\<close>

datatype js_value = JSUndefined | JSString string | JSNumber int

fun truthy :: "js_value \<Rightarrow> bool" where
  "truthy JSUndefined = False"
| "truthy (JSString s) = (s \<noteq> [])"
| "truthy (JSNumber n) = (n \<noteq> 0)"

fun js_String :: "js_value \<Rightarrow> string" where
  "js_String JSUndefined = ''undefined''"
| "js_String (JSString s) = s"
| "js_String (JSNumber n) = string_of_int n"

text \<open>\<open>v || ''\<close>\<close>

definition or_empty :: "js_value \<Rightarrow> js_value" where
  "or_empty v = (if truthy v then v else JSString [])"

section \<open>Dates\<close>

text \<open>
  \<open>new Date(s)\<close> is a service of the host. For a string of the date-only form
  \<open>yyyy-mm-dd\<close> naming a day of the proleptic Gregorian calendar, ECMAScript fixes
  the result: midnight UTC of that day, in milliseconds since 1970-01-01. Every other
  string (other ISO forms, implementation-defined formats, out-of-range fields) is
  decided by the host and is a parameter, \<open>otherParse\<close>; \<open>None\<close> is an invalid
  date, whose \<open>getTime()\<close> is \<open>NaN\<close>. \<open>toLocaleDateString\<close> reads the instant
  in the host's local time zone: \<open>localOffset t\<close> is the number of milliseconds the
  local clock is ahead of UTC at the instant \<open>t\<close>.
\<close>

record js_host =
  otherParse :: "string \<Rightarrow> int option"
  localOffset :: "int \<Rightarrow> int"

definition matchesDatePattern :: "string \<Rightarrow> bool" where
  \<comment> \<open>\<open>/^\d{4}-\d{2}-\d{2}$/.test(s)\<close>\<close>
  "matchesDatePattern s =
     (length s = 10 \<and> list_all isDigit (take 4 s) \<and> s ! 4 = CHR ''-'' \<and>
      list_all isDigit (take 2 (drop 5 s)) \<and> s ! 7 = CHR ''-'' \<and>
      list_all isDigit (drop 8 s))"

definition isLeap :: "int \<Rightarrow> bool" where
  "isLeap y = (y mod 4 = 0 \<and> (y mod 100 \<noteq> 0 \<or> y mod 400 = 0))"

definition daysInMonth :: "int \<Rightarrow> int \<Rightarrow> int" where
  "daysInMonth y m =
     (if m = 2 then (if isLeap y then 29 else 28)
      else if m = 4 \<or> m = 6 \<or> m = 9 \<or> m = 11 then 30 else 31)"

definition daysFromCivil :: "int \<Rightarrow> int \<Rightarrow> int \<Rightarrow> int" where
  \<comment> \<open>days from 1970-01-01 to the day \<open>y-m-d\<close>\<close>
  "daysFromCivil y m d =
     (let y' = (if m \<le> 2 then y - 1 else y);
          era = y' div 400;
          yoe = y' - era * 400;
          mp = (if m > 2 then m - 3 else m + 9);
          doy = (153 * mp + 2) div 5 + d - 1;
          doe = yoe * 365 + yoe div 4 - yoe div 100 + doy
      in era * 146097 + doe - 719468)"

definition monthFromDays :: "int \<Rightarrow> int" where
  \<comment> \<open>the month, 1 to 12, of the day \<open>z\<close> days after 1970-01-01\<close>
  "monthFromDays z =
     (let doe = (z + 719468) mod 146097;
          yoe = (doe - doe div 1460 + doe div 36524 - doe div 146096) div 365;
          doy = doe - (365 * yoe + yoe div 4 - yoe div 100);
          mp = (5 * doy + 2) div 153
      in if mp < 10 then mp + 3 else mp - 9)"

definition msPerDay :: int where
  "msPerDay = 1000 * 3600 * 24"

definition isoDateOnly :: "string \<Rightarrow> int option" where
  "isoDateOnly s =
     (if matchesDatePattern s then
        (let y = int (nat_of_digits (take 4 s));
             m = int (nat_of_digits (take 2 (drop 5 s)));
             d = int (nat_of_digits (drop 8 s))
         in if 1 \<le> m \<and> m \<le> 12 \<and> 1 \<le> d \<and> d \<le> daysInMonth y m
            then Some (daysFromCivil y m d * msPerDay) else None)
      else None)"

definition newDate :: "js_host \<Rightarrow> string \<Rightarrow> int option" where
  "newDate host s = (case isoDateOnly s of Some t \<Rightarrow> Some t | None \<Rightarrow> otherParse host s)"

definition monthNames :: "string list" where
  "monthNames = [''January'', ''February'', ''March'', ''April'', ''May'', ''June'', ''July'',
     ''August'', ''September'', ''October'', ''November'', ''December'']"

definition monthLong :: "js_host \<Rightarrow> int \<Rightarrow> string" where
  \<comment> \<open>\<open>date.toLocaleDateString('en-US', { month: 'long' })\<close>\<close>
  "monthLong host t = monthNames ! nat (monthFromDays ((t + localOffset host t) div msPerDay) - 1)"

definition getMonthName :: "js_host \<Rightarrow> string \<Rightarrow> string" where
  "getMonthName host dateString =
     (if dateString = [] then []
      else case newDate host dateString of
             None \<Rightarrow> []
           | Some t \<Rightarrow> monthLong host t)"

definition calculateDaysBetween :: "js_host \<Rightarrow> string \<Rightarrow> string \<Rightarrow> int" where
  "calculateDaysBetween host startDate endDate =
     (if startDate = [] \<or> endDate = [] then 0
      else case (newDate host startDate, newDate host endDate) of
             (Some start, Some end) \<Rightarrow>
               (let timeDifference = end - start;
                    daysDifference = - ((- timeDifference) div msPerDay)
                in max 0 daysDifference)
           | _ \<Rightarrow> 0)"

section \<open>The data model\<close>

datatype Platform = STEAM | EPIC | GOG | XBOX | PLAYSTATION | NINTENDO | MOBILE

datatype Region =
  GLOBAL | NORTH_AMERICA | EUROPE | ASIA_PACIFIC | LATIN_AMERICA | MIDDLE_EAST_AFRICA

datatype ImplementationStatus =
  IS_PENDING | IS_IN_PROGRESS | IS_COMPLETED | IS_FAILED | IS_CANCELLED

datatype SalesEventStatus = SE_PLANNED | SE_ACTIVE | SE_COMPLETED | SE_CANCELLED

text \<open>The string value of each enum member, which is what the program sees at run time.\<close>

fun platformValue :: "Platform \<Rightarrow> string" where
  "platformValue STEAM = ''Steam''"
| "platformValue EPIC = ''Epic Games Store''"
| "platformValue GOG = ''GOG''"
| "platformValue XBOX = ''Xbox''"
| "platformValue PLAYSTATION = ''PlayStation''"
| "platformValue NINTENDO = ''Nintendo Switch''"
| "platformValue MOBILE = ''Mobile''"

fun regionValue :: "Region \<Rightarrow> string" where
  "regionValue GLOBAL = ''Global''"
| "regionValue NORTH_AMERICA = ''North America''"
| "regionValue EUROPE = ''Europe''"
| "regionValue ASIA_PACIFIC = ''Asia Pacific''"
| "regionValue LATIN_AMERICA = ''Latin America''"
| "regionValue MIDDLE_EAST_AFRICA = ''Middle East & Africa''"

fun implementationStatusValue :: "ImplementationStatus \<Rightarrow> string" where
  "implementationStatusValue IS_PENDING = ''Pending''"
| "implementationStatusValue IS_IN_PROGRESS = ''In Progress''"
| "implementationStatusValue IS_COMPLETED = ''Completed''"
| "implementationStatusValue IS_FAILED = ''Failed''"
| "implementationStatusValue IS_CANCELLED = ''Cancelled''"

fun salesEventStatusValue :: "SalesEventStatus \<Rightarrow> string" where
  "salesEventStatusValue SE_PLANNED = ''Planned''"
| "salesEventStatusValue SE_ACTIVE = ''Active''"
| "salesEventStatusValue SE_COMPLETED = ''Completed''"
| "salesEventStatusValue SE_CANCELLED = ''Cancelled''"

text \<open>
  \<open>interface DiscountRecord\<close>. The two computed fields are optional in the source;
  the field \<open>length\<close> is named \<open>length_field\<close> here. \<open>percent\<close> is an
  integer-valued number.
\<close>

record DiscountRecord =
  clientId :: string
  client :: string
  platform :: Platform
  region :: Region
  discount :: string
  startDate :: string
  startTime :: string
  endDate :: string
  endTime :: string
  percent :: int
  deadline :: string
  implementationStatus :: ImplementationStatus
  salesEventStatus :: SalesEventStatus
  comments :: string
  month :: "string option"
  length_field :: "int option"

text \<open>
  \<open>interface BulkUpdateData\<close>: every field is optional. The two date fields carry
  the prefix \<open>upd\<close> to keep them apart from the fields of \<open>DiscountRecord\<close>.
  The type of \<open>discountPercent\<close> is a parameter. \<open>bulkUpdate\<close> copies the value
  into the \<open>percent\<close> of a record, so there it has the type of that field;
  \<open>validateBulkUpdateData\<close> compares it as a number, so there it ranges over
  everything the field can hold at run time (\<open>percent_input\<close> below).
\<close>

record 'n BulkUpdateData =
  discountName :: "string option"
  discountPercent :: "'n option"
  updStartDate :: "string option"
  updEndDate :: "string option"

text \<open>
  What \<open>discountPercent\<close> can hold when a patch is validated: a number, which is a
  finite value, an infinity or \<open>NaN\<close>, or the empty string, which the
  \<open>v-model.number\<close> input of the update form leaves in the field once it has been
  typed in and cleared. \<open>js_lt p c\<close> is \<open>p < c\<close> and \<open>js_gt p c\<close> is
  \<open>p > c\<close> for a finite number \<open>c\<close>: every comparison with \<open>NaN\<close> is false,
  and the empty string is compared as the number 0.
\<close>

datatype percent_input = Num real | PosInfinity | NegInfinity | NaN | EmptyString

fun js_lt :: "percent_input \<Rightarrow> real \<Rightarrow> bool" where
  "js_lt (Num x) c = (x < c)"
| "js_lt PosInfinity c = False"
| "js_lt NegInfinity c = True"
| "js_lt NaN c = False"
| "js_lt EmptyString c = (0 < c)"

fun js_gt :: "percent_input \<Rightarrow> real \<Rightarrow> bool" where
  "js_gt (Num x) c = (x > c)"
| "js_gt PosInfinity c = True"
| "js_gt NegInfinity c = False"
| "js_gt NaN c = False"
| "js_gt EmptyString c = (0 > c)"

text \<open>\<open>(record as any)[field]\<close> on the record's own properties.\<close>

definition getProp :: "DiscountRecord \<Rightarrow> string \<Rightarrow> js_value" where
  "getProp r field =
     (if field = ''clientId'' then JSString (clientId r)
      else if field = ''client'' then JSString (client r)
      else if field = ''platform'' then JSString (platformValue (platform r))
      else if field = ''region'' then JSString (regionValue (region r))
      else if field = ''discount'' then JSString (discount r)
      else if field = ''startDate'' then JSString (startDate r)
      else if field = ''startTime'' then JSString (startTime r)
      else if field = ''endDate'' then JSString (endDate r)
      else if field = ''endTime'' then JSString (endTime r)
      else if field = ''percent'' then JSNumber (percent r)
      else if field = ''deadline'' then JSString (deadline r)
      else if field = ''implementationStatus''
        then JSString (implementationStatusValue (implementationStatus r))
      else if field = ''salesEventStatus''
        then JSString (salesEventStatusValue (salesEventStatus r))
      else if field = ''comments'' then JSString (comments r)
      else if field = ''month''
        then (case month r of None \<Rightarrow> JSUndefined | Some m \<Rightarrow> JSString m)
      else if field = ''length''
        then (case length_field r of None \<Rightarrow> JSUndefined | Some n \<Rightarrow> JSNumber n)
      else JSUndefined)"

section \<open>The record generator\<close>

definition CLIENT_OPTIONS :: "string list" where
  "CLIENT_OPTIONS = [''Activision'', ''Electronic Arts'', ''Ubisoft'', ''Take-Two Interactive'',
     ''Bandai Namco'', ''Square Enix'', ''SEGA'', ''Capcom'', ''Konami'', ''Epic Games'',
     ''Valve Corporation'', ''CD Projekt'', ''Bethesda Game Studios'', ''2K Games'',
     ''Warner Bros. Games'']"

text \<open>
  The generator draws every field from \<open>Math.random()\<close>. What the random source
  yields for one record is a parameter: the position drawn in \<open>CLIENT_OPTIONS\<close> and
  the other drawn fields. The client id is not drawn; it is built from the client and
  the index.
\<close>

record random_draws =
  drawClient :: nat
  drawFields :: DiscountRecord

definition randomChoice :: "nat \<Rightarrow> 'a list \<Rightarrow> 'a" where
  \<comment> \<open>\<open>array[Math.floor(Math.random() * array.length)]\<close>, on a non-empty array\<close>
  "randomChoice k array = array ! (k mod length array)"

definition generateDiscountRecord :: "random_draws \<Rightarrow> nat \<Rightarrow> DiscountRecord" where
  "generateDiscountRecord rnd index =
     (let client' = randomChoice (drawClient rnd) CLIENT_OPTIONS;
          clientId' = ''ORG_'' @ filter isUpperAZ client' @ ''_'' @
                      padStart 6 (CHR ''0'') (string_of_nat index)
      in (drawFields rnd)\<lparr>clientId := clientId', client := client',
                          month := None, length_field := None\<rparr>)"

definition generateMockData :: "(nat \<Rightarrow> random_draws) \<Rightarrow> int \<Rightarrow> DiscountRecord list" where
  "generateMockData rnd count = map (\<lambda>i. generateDiscountRecord (rnd i) i) [0 ..< nat count]"

definition generateTestData :: "(nat \<Rightarrow> random_draws) \<Rightarrow> int \<Rightarrow> DiscountRecord list" where
  "generateTestData rnd count = generateMockData rnd count"

section \<open>The record store (useDiscountData)\<close>

text \<open>
  \<open>filters\<close> is an object used as a dictionary from field names to arrays of
  accepted values (or \<open>null\<close>); it is kept as an association list in insertion order.
\<close>

record store =
  rawData :: "DiscountRecord list"
  isLoading :: bool
  filters :: "(string \<times> string list option) list"
  error :: "string option"

definition initialStore :: store where
  "initialStore = \<lparr>rawData = [], isLoading = False, filters = [], error = None\<rparr>"

definition withComputedFields :: "js_host \<Rightarrow> DiscountRecord \<Rightarrow> DiscountRecord" where
  \<comment> \<open>\<open>{ ...record, month: getMonthName(..), length: calculateDaysBetween(..) }\<close>\<close>
  "withComputedFields host r =
     r\<lparr>month := Some (getMonthName host (startDate r)),
       length_field := Some (calculateDaysBetween host (startDate r) (endDate r))\<rparr>"

text \<open>
  \<open>loadData\<close>: \<open>gen\<close> is the call
  \<open>count <= 5000 ? generateTestData(count) : generateMockData(count)\<close>, which
  returns the data or throws.
\<close>

definition loadData ::
  "js_host \<Rightarrow> (int \<Rightarrow> js_exn + DiscountRecord list) \<Rightarrow> int \<Rightarrow> store \<Rightarrow> store" where
  "loadData host gen count s =
     (let s1 = s\<lparr>isLoading := True, error := None\<rparr>;
          s2 = (case gen count of
                  Inr data \<Rightarrow> s1\<lparr>rawData := map (withComputedFields host) data\<rparr>
                | Inl err \<Rightarrow>
                    s1\<lparr>error := Some (case err of JsError m \<Rightarrow> m
                                                | JsThrown \<Rightarrow> ''Failed to load data'')\<rparr>)
      in s2\<lparr>isLoading := False\<rparr>)"

definition generateData :: "(nat \<Rightarrow> random_draws) \<Rightarrow> int \<Rightarrow> js_exn + DiscountRecord list" where
  "generateData rnd count =
     Inr (if count \<le> 5000 then generateTestData rnd count else generateMockData rnd count)"

definition fieldValue :: "DiscountRecord \<Rightarrow> string \<Rightarrow> string" where
  \<comment> \<open>\<open>String((record as any)[field] || '')\<close>\<close>
  "fieldValue r field = js_String (or_empty (getProp r field))"

definition passesFilter :: "string \<Rightarrow> string list \<Rightarrow> DiscountRecord \<Rightarrow> bool" where
  "passesFilter field vals r =
     list_ex (\<lambda>filterValue.
        includes_str (toLowerCase (fieldValue r field)) (toLowerCase filterValue)) vals"

definition applyFilterEntry ::
  "DiscountRecord list \<Rightarrow> string \<times> string list option \<Rightarrow> DiscountRecord list" where
  "applyFilterEntry result entry =
     (case entry of
        (field, Some vals) \<Rightarrow>
          if vals \<noteq> [] then filter (passesFilter field vals) result else result
      | (field, None) \<Rightarrow> result)"

definition filteredData :: "store \<Rightarrow> DiscountRecord list" where
  "filteredData s =
     (if filters s = [] then rawData s
      else foldl applyFilterEntry (rawData s) (filters s))"

text \<open>A JavaScript \<open>Set\<close> of strings keeps its members in insertion order.\<close>

definition set_add :: "string \<Rightarrow> string list \<Rightarrow> string list" where
  "set_add v vs = (if v \<in> set vs then vs else vs @ [v])"

definition uniqueValueOf :: "js_host \<Rightarrow> string \<Rightarrow> DiscountRecord \<Rightarrow> string" where
  "uniqueValueOf host field r =
     (if field = ''month'' then getMonthName host (startDate r)
      else if field = ''length''
        then string_of_int (calculateDaysBetween host (startDate r) (endDate r))
      else js_String (or_empty (getProp r field)))"

definition getUniqueValues :: "js_host \<Rightarrow> string \<Rightarrow> store \<Rightarrow> string list" where
  "getUniqueValues host field s =
     sort (foldl (\<lambda>vals r.
                    let v = uniqueValueOf host field r
                    in if v \<noteq> [] then set_add v vals else vals)
                 [] (rawData s))"

fun assign :: "string \<Rightarrow> 'v \<Rightarrow> (string \<times> 'v) list \<Rightarrow> (string \<times> 'v) list" where
  \<comment> \<open>\<open>obj[key] = value\<close>: an existing key keeps its place, a new one goes last\<close>
  "assign k v [] = [(k, v)]"
| "assign k v ((k', v') # kvs) = (if k = k' then (k, v) # kvs else (k', v') # assign k v kvs)"

definition updateFilter :: "string \<Rightarrow> string list option \<Rightarrow> store \<Rightarrow> store" where
  "updateFilter field vals s =
     (case vals of
        Some vs \<Rightarrow>
          if vs \<noteq> [] then s\<lparr>filters := assign field (Some vs) (filters s)\<rparr>
          else s\<lparr>filters := filter (\<lambda>kv. fst kv \<noteq> field) (filters s)\<rparr>
      | None \<Rightarrow> s\<lparr>filters := filter (\<lambda>kv. fst kv \<noteq> field) (filters s)\<rparr>)"

definition clearFilters :: "store \<Rightarrow> store" where
  "clearFilters s = s\<lparr>filters := []\<rparr>"

fun findIndex :: "('a \<Rightarrow> bool) \<Rightarrow> 'a list \<Rightarrow> nat option" where
  \<comment> \<open>\<open>None\<close> stands for the result \<open>-1\<close>\<close>
  "findIndex p [] = None"
| "findIndex p (x # xs) =
     (if p x then Some 0 else (case findIndex p xs of None \<Rightarrow> None | Some i \<Rightarrow> Some (Suc i)))"

definition updateRecord :: "js_host \<Rightarrow> DiscountRecord \<Rightarrow> store \<Rightarrow> store" where
  "updateRecord host updatedRecord s =
     (case findIndex (\<lambda>r. clientId r = clientId updatedRecord) (rawData s) of
        Some index \<Rightarrow> s\<lparr>rawData := (rawData s)[index := withComputedFields host updatedRecord]\<rparr>
      | None \<Rightarrow> s)"

definition deleteRecord :: "string \<Rightarrow> store \<Rightarrow> store" where
  "deleteRecord cid s =
     (case findIndex (\<lambda>r. clientId r = cid) (rawData s) of
        Some index \<Rightarrow> s\<lparr>rawData := take index (rawData s) @ drop (Suc index) (rawData s)\<rparr>
      | None \<Rightarrow> s)"

definition deleteRecords :: "string list \<Rightarrow> store \<Rightarrow> store" where
  "deleteRecords clientIds s =
     s\<lparr>rawData := filter (\<lambda>r. clientId r \<notin> set clientIds) (rawData s)\<rparr>"

definition addRecord :: "js_host \<Rightarrow> DiscountRecord \<Rightarrow> store \<Rightarrow> store" where
  "addRecord host newRecord s = s\<lparr>rawData := rawData s @ [withComputedFields host newRecord]\<rparr>"

text \<open>
  The operations a client of the store can invoke, and the state a sequence of them
  leads to from the initial store. \<open>Load rnd count\<close> is a load whose generation
  returns, with the random draws \<open>rnd\<close>; \<open>LoadThrows e count\<close> is a load whose
  generation throws \<open>e\<close>.
\<close>

datatype action =
  Load "nat \<Rightarrow> random_draws" int
| LoadThrows js_exn int
| UpdateRecord DiscountRecord
| DeleteRecord string
| DeleteRecords "string list"
| AddRecord DiscountRecord
| UpdateFilter string "string list option"
| ClearFilters

fun perform :: "js_host \<Rightarrow> action \<Rightarrow> store \<Rightarrow> store" where
  "perform host (Load rnd count) s = loadData host (generateData rnd) count s"
| "perform host (LoadThrows e count) s = loadData host (\<lambda>_. Inl e) count s"
| "perform host (UpdateRecord r) s = updateRecord host r s"
| "perform host (DeleteRecord cid) s = deleteRecord cid s"
| "perform host (DeleteRecords cids) s = deleteRecords cids s"
| "perform host (AddRecord r) s = addRecord host r s"
| "perform host (UpdateFilter field vals) s = updateFilter field vals s"
| "perform host ClearFilters s = clearFilters s"

fun run :: "js_host \<Rightarrow> action list \<Rightarrow> store \<Rightarrow> store" where
  "run host [] s = s"
| "run host (a # as) s = run host as (perform host a s)"

section \<open>CSV export\<close>

definition comma :: char where "comma = CHR '',''"
definition dquote :: char where "dquote = CHR 0x22"
definition newline :: char where "newline = CHR 0x0A"

definition escapeCSVValue :: "string \<Rightarrow> string" where
  "escapeCSVValue stringValue =
     (if comma \<in> set stringValue \<or> dquote \<in> set stringValue \<or> newline \<in> set stringValue
      then [dquote] @ concat (map (\<lambda>c. if c = dquote then [dquote, dquote] else [c]) stringValue)
           @ [dquote]
      else stringValue)"

definition headers :: "string list" where
  "headers = [''Client Id'', ''Client'', ''Platform'', ''Region'', ''Discount'', ''Start Date'',
     ''Start Time'', ''End Date'', ''End Time'', ''Percent'', ''Deadline'',
     ''Implementation Status'', ''Sales Event Status'', ''Comments'', ''Month'',
     ''Length (Days)'']"

definition csvRow :: "js_host \<Rightarrow> DiscountRecord \<Rightarrow> string" where
  "csvRow host r =
     (let month' = getMonthName host (startDate r);
          length' = calculateDaysBetween host (startDate r) (endDate r)
      in join [comma]
           [escapeCSVValue (clientId r),
            escapeCSVValue (client r),
            escapeCSVValue (platformValue (platform r)),
            escapeCSVValue (regionValue (region r)),
            escapeCSVValue (discount r),
            escapeCSVValue (startDate r),
            escapeCSVValue (startTime r),
            escapeCSVValue (endDate r),
            escapeCSVValue (endTime r),
            string_of_int (percent r),
            escapeCSVValue (deadline r),
            escapeCSVValue (implementationStatusValue (implementationStatus r)),
            escapeCSVValue (salesEventStatusValue (salesEventStatus r)),
            escapeCSVValue (comments r),
            escapeCSVValue month',
            string_of_int length'])"

definition convertToCSV :: "js_host \<Rightarrow> DiscountRecord list \<Rightarrow> string" where
  "convertToCSV host records =
     (if records = [] then []
      else join [newline] (join [comma] headers # map (csvRow host) records))"

definition generateFilename :: "string \<Rightarrow> string \<Rightarrow> string" where
  \<comment> \<open>\<open>nowISO\<close> is \<open>new Date().toISOString()\<close>\<close>
  "generateFilename nowISO prefix' =
     prefix' @ ''-'' @ map (\<lambda>c. if c = CHR '':'' then CHR ''-'' else c) (take 19 nowISO) @ ''.csv''"

text \<open>
  The field values a reader of the file is to recover for one record: the fourteen stored
  fields and the two computed columns, numbers in decimal.
\<close>

definition csvCells :: "js_host \<Rightarrow> DiscountRecord \<Rightarrow> string list" where
  "csvCells host r =
     [clientId r, client r, platformValue (platform r), regionValue (region r), discount r,
      startDate r, startTime r, endDate r, endTime r, string_of_int (percent r), deadline r,
      implementationStatusValue (implementationStatus r),
      salesEventStatusValue (salesEventStatus r), comments r,
      getMonthName host (startDate r),
      string_of_int (calculateDaysBetween host (startDate r) (endDate r))]"

text \<open>
  Modelled from the spec: the reader of the CSV text, which is external to the repository.
  It follows the format as the specification describes it: fields separated by commas,
  rows separated by \<open>\n\<close>, a field that starts with a double quote runs to its closing
  double quote, and inside it two double quotes stand for one. The empty text has no rows.
  A carriage return is an ordinary character of a field.
\<close>

datatype csv_mode = FieldStart | Unquoted | Quoted | QuoteSeen

fun parseCSV_from :: "csv_mode \<Rightarrow> string \<Rightarrow> string list \<Rightarrow> string \<Rightarrow> string list list" where
  "parseCSV_from mode field row [] = [rev (rev field # row)]"
| "parseCSV_from mode field row (c # cs) =
     (if mode = Quoted then
        (if c = dquote then parseCSV_from QuoteSeen field row cs
         else parseCSV_from Quoted (c # field) row cs)
      else if c = dquote \<and> mode = FieldStart then parseCSV_from Quoted field row cs
      else if c = dquote \<and> mode = QuoteSeen then parseCSV_from Quoted (c # field) row cs
      else if c = comma then parseCSV_from FieldStart [] (rev field # row) cs
      else if c = newline then rev (rev field # row) # parseCSV_from FieldStart [] [] cs
      else parseCSV_from Unquoted (c # field) row cs)"

definition parseCSV :: "string \<Rightarrow> string list list" where
  "parseCSV text = (if text = [] then [] else parseCSV_from FieldStart [] [] text)"

section \<open>Bulk operations (useBulkOperations)\<close>

record bulk_state =
  isProcessing :: bool
  operationProgress :: int
  lastOperationResult :: "string option"

text \<open>
  A callback supplied by the caller acts on the caller's own state \<open>'w\<close>; it returns
  normally (\<open>None\<close>) or throws. Each operation returns the rejection of its promise
  (\<open>None\<close> when it resolves), the arguments of the callback invocations in order, the
  caller's state and the state of the composable.
\<close>

type_synonym ('a, 'w) callback = "'a \<Rightarrow> 'w \<Rightarrow> js_exn option \<times> 'w"

definition errorMessage :: "js_exn \<Rightarrow> string" where
  \<comment> \<open>\<open>error instanceof Error ? error.message : 'Unknown error occurred'\<close>\<close>
  "errorMessage e = (case e of JsError m \<Rightarrow> m | JsThrown \<Rightarrow> ''Unknown error occurred'')"

definition percentDone :: "nat \<Rightarrow> nat \<Rightarrow> int" where
  \<comment> \<open>\<open>Math.round((a / b) * 100)\<close> for \<open>b > 0\<close>, in exact arithmetic; the
      value is an intermediate one, which the \<open>finally\<close> block overwrites with 0\<close>
  "percentDone a b = (200 * int a + int b) div (2 * int b)"

definition given :: "string option \<Rightarrow> bool" where
  \<comment> \<open>the truthiness test \<open>if (s)\<close> on an optional string: defined and not empty\<close>
  "given s = (case s of Some v \<Rightarrow> v \<noteq> [] | None \<Rightarrow> False)"

definition mergeUpdate :: "int BulkUpdateData \<Rightarrow> DiscountRecord \<Rightarrow> DiscountRecord" where
  "mergeUpdate updateData r =
     (let r1 = (if given (discountName updateData)
                then r\<lparr>discount := the (discountName updateData)\<rparr> else r);
          r2 = (case discountPercent updateData of
                  Some p \<Rightarrow> r1\<lparr>percent := p\<rparr> | None \<Rightarrow> r1);
          r3 = (if given (updStartDate updateData)
                then r2\<lparr>startDate := the (updStartDate updateData)\<rparr> else r2);
          r4 = (if given (updEndDate updateData)
                then r3\<lparr>endDate := the (updEndDate updateData)\<rparr> else r3)
      in r4)"

fun bulkUpdate_loop ::
  "int BulkUpdateData \<Rightarrow> (DiscountRecord, 'w) callback \<Rightarrow> nat \<Rightarrow> DiscountRecord list \<Rightarrow>
   nat \<Rightarrow> int \<Rightarrow> DiscountRecord list \<Rightarrow> 'w \<Rightarrow>
   (js_exn + nat) \<times> int \<times> DiscountRecord list \<times> 'w" where
  "bulkUpdate_loop updateData onUpdate total' [] processed progress calls w =
     (Inr processed, progress, calls, w)"
| "bulkUpdate_loop updateData onUpdate total' (r # rs) processed progress calls w =
     (let updatedRecord = mergeUpdate updateData r
      in case onUpdate updatedRecord w of
           (Some e, w') \<Rightarrow> (Inl e, progress, calls @ [updatedRecord], w')
         | (None, w') \<Rightarrow>
             bulkUpdate_loop updateData onUpdate total' rs (Suc processed)
               (percentDone (Suc processed) total') (calls @ [updatedRecord]) w')"

definition bulkUpdate ::
  "DiscountRecord list \<Rightarrow> int BulkUpdateData \<Rightarrow> (DiscountRecord, 'w) callback \<Rightarrow> 'w \<Rightarrow>
   bulk_state \<Rightarrow> js_exn option \<times> DiscountRecord list \<times> 'w \<times> bulk_state" where
  "bulkUpdate records updateData onUpdate w st =
     (if records = [] then (Some (JsError ''No records selected for bulk update''), [], w, st)
      else
        let st1 = st\<lparr>isProcessing := True, operationProgress := 0, lastOperationResult := None\<rparr>
        in case bulkUpdate_loop updateData onUpdate (length records) records 0 0 [] w of
             (Inr processed, progress, calls, w') \<Rightarrow>
               (None, calls, w',
                st1\<lparr>operationProgress := progress,
                    lastOperationResult :=
                      Some (''Successfully updated '' @ string_of_nat processed @ '' records'')\<rparr>
                   \<lparr>isProcessing := False, operationProgress := 0\<rparr>)
           | (Inl e, progress, calls, w') \<Rightarrow>
               (Some e, calls, w',
                st1\<lparr>operationProgress := progress,
                    lastOperationResult :=
                      Some (''Error during bulk update: '' @ errorMessage e)\<rparr>
                   \<lparr>isProcessing := False, operationProgress := 0\<rparr>))"

function deleteProgress :: "nat \<Rightarrow> nat \<Rightarrow> int \<Rightarrow> int" where
  \<comment> \<open>the simulated progress loop of \<open>bulkDelete\<close>; returns the last progress value\<close>
  "deleteProgress i total' progress =
     (if i \<le> total'
      then deleteProgress (i + max 1 (total' div 10)) total' (percentDone (min i total') total')
      else progress)"
  by pat_completeness auto
termination
  by (relation "measure (\<lambda>(i, total', progress). Suc total' - i)") auto

declare deleteProgress.simps [simp del]

definition bulkDelete ::
  "DiscountRecord list \<Rightarrow> (string list, 'w) callback \<Rightarrow> 'w \<Rightarrow> bulk_state \<Rightarrow>
   js_exn option \<times> string list list \<times> 'w \<times> bulk_state" where
  "bulkDelete records onDelete w st =
     (if records = [] then (Some (JsError ''No records selected for deletion''), [], w, st)
      else
        let st1 = st\<lparr>isProcessing := True, operationProgress := 0, lastOperationResult := None\<rparr>;
            clientIds = map clientId records;
            total' = length clientIds;
            st2 = st1\<lparr>operationProgress := deleteProgress 0 total' 0\<rparr>
        in case onDelete clientIds w of
             (None, w') \<Rightarrow>
               (None, [clientIds], w',
                st2\<lparr>lastOperationResult :=
                      Some (''Successfully deleted '' @ string_of_nat total' @ '' records'')\<rparr>
                   \<lparr>isProcessing := False, operationProgress := 0\<rparr>)
           | (Some e, w') \<Rightarrow>
               (Some e, [clientIds], w',
                st2\<lparr>lastOperationResult :=
                      Some (''Error during bulk delete: '' @ errorMessage e)\<rparr>
                   \<lparr>isProcessing := False, operationProgress := 0\<rparr>))"

text \<open>
  \<open>exportToCSV\<close>: \<open>save\<close> is the browser part of \<open>downloadCSV\<close> (the blob and the
  link click), which receives the CSV text and the file name.
\<close>

definition downloadCSV ::
  "js_host \<Rightarrow> (string \<times> string, 'w) callback \<Rightarrow> DiscountRecord list \<Rightarrow> string \<Rightarrow> 'w \<Rightarrow>
   js_exn option \<times> 'w" where
  "downloadCSV host save records filename w = save (convertToCSV host records, filename) w"

definition exportToCSV ::
  "js_host \<Rightarrow> string \<Rightarrow> (string \<times> string, 'w) callback \<Rightarrow> DiscountRecord list \<Rightarrow>
   string option \<Rightarrow> 'w \<Rightarrow> bulk_state \<Rightarrow>
   js_exn option \<times> (string \<times> string) list \<times> 'w \<times> bulk_state" where
  "exportToCSV host nowISO save records filename w st =
     (if records = [] then (Some (JsError ''No records to export''), [], w, st)
      else
        let st1 = st\<lparr>isProcessing := True, operationProgress := 0, lastOperationResult := None\<rparr>;
            st2 = st1\<lparr>operationProgress := last (map (\<lambda>k. 10 * int k) [0 ..< 11])\<rparr>;
            exportFilename = (if given filename then the filename
                              else generateFilename nowISO ''filtered-discounts'')
        in case downloadCSV host save records exportFilename w of
             (None, w') \<Rightarrow>
               (None, [(convertToCSV host records, exportFilename)], w',
                st2\<lparr>lastOperationResult :=
                      Some (''Successfully exported '' @ string_of_nat (length records) @
                            '' records to '' @ exportFilename)\<rparr>
                   \<lparr>isProcessing := False, operationProgress := 0\<rparr>)
           | (Some e, w') \<Rightarrow>
               (Some e, [(convertToCSV host records, exportFilename)], w',
                st2\<lparr>lastOperationResult :=
                      Some (''Error during CSV export: '' @ errorMessage e)\<rparr>
                   \<lparr>isProcessing := False, operationProgress := 0\<rparr>))"

definition validateBulkUpdateData ::
  "js_host \<Rightarrow> percent_input BulkUpdateData \<Rightarrow> string list" where
  "validateBulkUpdateData host updateData =
     (let e1 = (case discountPercent updateData of
                  Some p \<Rightarrow> if js_lt p 0 \<or> js_gt p 100
                            then [''Discount percent must be between 0 and 100''] else []
                | None \<Rightarrow> []);
          e2 = (if given (updStartDate updateData)
                   \<and> \<not> matchesDatePattern (the (updStartDate updateData))
                then [''Start date must be in YYYY-MM-DD format''] else []);
          e3 = (if given (updEndDate updateData)
                   \<and> \<not> matchesDatePattern (the (updEndDate updateData))
                then [''End date must be in YYYY-MM-DD format''] else []);
          e4 = (if given (updStartDate updateData) \<and> given (updEndDate updateData)
                then (case (newDate host (the (updStartDate updateData)),
                            newDate host (the (updEndDate updateData))) of
                        (Some startDate', Some endDate') \<Rightarrow>
                          if endDate' \<le> startDate'
                          then [''End date must be after start date''] else []
                      | _ \<Rightarrow> [])
                else [])
      in e1 @ e2 @ e3 @ e4)"

text \<open>The four components of the result of a bulk operation.\<close>

definition rejection :: "js_exn option \<times> 'c list \<times> 'w \<times> bulk_state \<Rightarrow> js_exn option" where
  "rejection res = fst res"

definition callbackCalls :: "js_exn option \<times> 'c list \<times> 'w \<times> bulk_state \<Rightarrow> 'c list" where
  "callbackCalls res = fst (snd res)"

definition callerState :: "js_exn option \<times> 'c list \<times> 'w \<times> bulk_state \<Rightarrow> 'w" where
  "callerState res = fst (snd (snd res))"

definition finalState :: "js_exn option \<times> 'c list \<times> 'w \<times> bulk_state \<Rightarrow> bulk_state" where
  "finalState res = snd (snd (snd res))"

definition percentOnly :: "int \<Rightarrow> int BulkUpdateData" where
  \<comment> \<open>the patch \<open>{ discountPercent: p }\<close>\<close>
  "percentOnly p =
     \<lparr>discountName = None, discountPercent = Some p, updStartDate = None, updEndDate = None\<rparr>"

section \<open>The properties, as the specification words them\<close>

text \<open>The computed fields of a record agree with its dates.\<close>

definition computedFieldsCurrent :: "js_host \<Rightarrow> DiscountRecord \<Rightarrow> bool" where
  "computedFieldsCurrent host r =
     (month r = Some (getMonthName host (startDate r)) \<and>
      length_field r = Some (calculateDaysBetween host (startDate r) (endDate r)))"

definition storeInvariant :: "js_host \<Rightarrow> store \<Rightarrow> bool" where
  "storeInvariant host s = list_all (computedFieldsCurrent host) (rawData s)"

text \<open>No two stored records share a client id.\<close>

definition uniqueClientIds :: "store \<Rightarrow> bool" where
  "uniqueClientIds s = distinct (map clientId (rawData s))"

text \<open>Every \<open>addRecord\<close> of a run adds a client id that is not stored at that moment.\<close>

fun addsAreFresh :: "js_host \<Rightarrow> action list \<Rightarrow> store \<Rightarrow> bool" where
  "addsAreFresh host [] s = True"
| "addsAreFresh host (a # as) s =
     ((case a of AddRecord r \<Rightarrow> clientId r \<notin> set (map clientId (rawData s)) | _ \<Rightarrow> True)
      \<and> addsAreFresh host as (perform host a s))"

text \<open>
  The filter as the specification words it: the stringified field value contains, without
  regard to case, one of the accepted values.
\<close>

definition stringified :: "DiscountRecord \<Rightarrow> string \<Rightarrow> string" where
  "stringified r field = js_String (getProp r field)"

definition accepts :: "string \<Rightarrow> string list \<Rightarrow> DiscountRecord \<Rightarrow> bool" where
  "accepts field vals r =
     list_ex (\<lambda>v. includes_str (toLowerCase (stringified r field)) (toLowerCase v)) vals"

definition activeFilters :: "store \<Rightarrow> (string \<times> string list) list" where
  "activeFilters s =
     concat (map (\<lambda>(field, vals). case vals of Some vs \<Rightarrow> if vs \<noteq> [] then [(field, vs)] else []
                                            | None \<Rightarrow> [])
                 (filters s))"

text \<open>
  A valid patch as the specification words it: the percent, when present, lies in
  \<open>[0, 100]\<close>; each date, when present, matches the pattern; when both are present the
  end strictly follows the start.
\<close>

definition strictlyFollows :: "js_host \<Rightarrow> string \<Rightarrow> string \<Rightarrow> bool" where
  "strictlyFollows host endDate' startDate' =
     (case (newDate host startDate', newDate host endDate') of
        (Some a, Some b) \<Rightarrow> a < b
      | _ \<Rightarrow> False)"

definition inPercentRange :: "percent_input \<Rightarrow> bool" where
  \<comment> \<open>the value is a number of the interval \<open>[0, 100]\<close>\<close>
  "inPercentRange p = (case p of Num x \<Rightarrow> 0 \<le> x \<and> x \<le> 100 | _ \<Rightarrow> False)"

definition patchValid :: "js_host \<Rightarrow> percent_input BulkUpdateData \<Rightarrow> bool" where
  "patchValid host u =
     ((case discountPercent u of Some p \<Rightarrow> inPercentRange p | None \<Rightarrow> True) \<and>
      (case updStartDate u of Some d \<Rightarrow> matchesDatePattern d | None \<Rightarrow> True) \<and>
      (case updEndDate u of Some d \<Rightarrow> matchesDatePattern d | None \<Rightarrow> True) \<and>
      (case (updStartDate u, updEndDate u) of
         (Some a, Some b) \<Rightarrow> strictlyFollows host b a
       | _ \<Rightarrow> True))"

text \<open>An empty date string of a patch read as an absent field.\<close>

definition emptyAsAbsent :: "string option \<Rightarrow> string option" where
  "emptyAsAbsent d = (if given d then d else None)"

definition dropEmptyDates :: "'n BulkUpdateData \<Rightarrow> 'n BulkUpdateData" where
  "dropEmptyDates u =
     u\<lparr>updStartDate := emptyAsAbsent (updStartDate u), updEndDate := emptyAsAbsent (updEndDate u)\<rparr>"

text \<open>Every date of the patch that matches the pattern is a date the host can parse.\<close>

definition parsesIfPattern :: "js_host \<Rightarrow> string option \<Rightarrow> bool" where
  "parsesIfPattern host d =
     (case d of Some v \<Rightarrow> \<not> matchesDatePattern v \<or> newDate host v \<noteq> None | None \<Rightarrow> True)"

definition datesParse :: "js_host \<Rightarrow> 'n BulkUpdateData \<Rightarrow> bool" where
  "datesParse host u = (parsesIfPattern host (updStartDate u) \<and> parsesIfPattern host (updEndDate u))"

text \<open>The percent of the patch, when present, is a number other than \<open>NaN\<close>.\<close>

definition percentIsNumber :: "percent_input BulkUpdateData \<Rightarrow> bool" where
  "percentIsNumber u =
     (case discountPercent u of
        Some NaN \<Rightarrow> False
      | Some EmptyString \<Rightarrow> False
      | _ \<Rightarrow> True)"

section \<open>Sample data\<close>

definition hostUTC :: js_host where
  "hostUTC = \<lparr>otherParse = (\<lambda>_. None), localOffset = (\<lambda>_. 0)\<rparr>"

definition hostNewYork :: js_host where
  \<comment> \<open>a host five hours behind UTC\<close>
  "hostNewYork = \<lparr>otherParse = (\<lambda>_. None), localOffset = (\<lambda>_. - 5 * 3600 * 1000)\<rparr>"

definition recordA :: DiscountRecord where
  "recordA = \<lparr>clientId = ''X'', client = ''SEGA'', platform = STEAM, region = GLOBAL,
     discount = ''Summer Sale'', startDate = ''2024-05-10'', startTime = ''10:00'',
     endDate = ''2024-05-20'', endTime = ''11:00'', percent = 20, deadline = ''2024-05-01'',
     implementationStatus = IS_PENDING, salesEventStatus = SE_PLANNED,
     comments = ''Approved by management'', month = Some ''May'', length_field = Some 10\<rparr>"

definition logCall :: "('a, 'a list) callback" where
  \<comment> \<open>a callback that records its argument and returns\<close>
  "logCall x w = (None, w @ [x])"

definition idleBulk :: bulk_state where
  "idleBulk = \<lparr>isProcessing = False, operationProgress = 0, lastOperationResult = None\<rparr>"

definition zeroRecord :: DiscountRecord where
  \<comment> \<open>a record that starts and ends on the same day, with percent 0 and no comment\<close>
  "zeroRecord = recordA\<lparr>percent := 0, endDate := ''2024-05-10'', comments := [],
     month := Some ''May'', length_field := Some 0\<rparr>"

definition zeroLengthStore :: store where
  "zeroLengthStore =
     run hostUTC [AddRecord zeroRecord, UpdateFilter ''length'' (Some [''0''])] initialStore"

definition datesPatch :: "string \<Rightarrow> string \<Rightarrow> percent_input BulkUpdateData" where
  \<comment> \<open>the patch \<open>{ startDate: a, endDate: b }\<close>\<close>
  "datesPatch a b =
     \<lparr>discountName = None, discountPercent = None, updStartDate = Some a, updEndDate = Some b\<rparr>"

definition percentPatch :: "percent_input \<Rightarrow> percent_input BulkUpdateData" where
  \<comment> \<open>the patch \<open>{ discountPercent: p }\<close> as the validation sees it\<close>
  "percentPatch p =
     \<lparr>discountName = None, discountPercent = Some p, updStartDate = None, updEndDate = None\<rparr>"

definition fullPatch :: "percent_input BulkUpdateData" where
  "fullPatch =
     \<lparr>discountName = Some ''Spring Break'', discountPercent = Some (Num 50),
      updStartDate = Some ''2024-05-01'', updEndDate = Some ''2024-05-10''\<rparr>"

definition sampleDraws :: "nat \<Rightarrow> random_draws" where
  "sampleDraws i = \<lparr>drawClient = 6 + i, drawFields = recordA\<rparr>"

definition sampleRun :: "action list" where
  "sampleRun = [Load sampleDraws 2, AddRecord recordA, UpdateRecord (recordA\<lparr>percent := 30\<rparr>),
     AddRecord (recordA\<lparr>clientId := ''Y''\<rparr>), DeleteRecord ''X'']"

definition plain :: "char \<Rightarrow> bool" where
  \<comment> \<open>a character that does not force a field into quotes\<close>
  "plain c = (c \<noteq> comma \<and> c \<noteq> dquote \<and> c \<noteq> newline)"

definition awkwardRecord :: DiscountRecord where
  \<comment> \<open>a record with commas, double quotes and a newline in its free-text fields\<close>
  "awkwardRecord = recordA\<lparr>discount := ''Summer, '' @ [dquote] @ ''Big'' @ [dquote] @ '' Sale'',
      comments := ''line one'' @ [newline] @ ''line two, with comma''\<rparr>"

section \<open>The computed fields never drift from the dates\<close>

lemma withComputedFields_current: "computedFieldsCurrent host (withComputedFields host r)"
  by (simp add: computedFieldsCurrent_def withComputedFields_def)

lemma loadData_inv: "storeInvariant host s \<Longrightarrow> storeInvariant host (loadData host gen count s)"
  by (cases "gen count")
     (simp_all add: storeInvariant_def loadData_def Let_def list_all_iff withComputedFields_current)

lemma updateRecord_inv:
  assumes inv: "storeInvariant host s"
  shows "storeInvariant host (updateRecord host r s)"
proof (cases "findIndex (\<lambda>x. clientId x = clientId r) (rawData s)")
  case None
  with inv show ?thesis by (simp add: updateRecord_def)
next
  case (Some i)
  have "set ((rawData s)[i := withComputedFields host r])
          \<subseteq> insert (withComputedFields host r) (set (rawData s))"
    by (rule set_update_subset_insert)
  with inv Some show ?thesis
    by (auto simp add: updateRecord_def storeInvariant_def list_all_iff withComputedFields_current)
qed

lemma deleteRecord_inv: "storeInvariant host s \<Longrightarrow> storeInvariant host (deleteRecord cid s)"
  by (auto simp add: deleteRecord_def storeInvariant_def list_all_iff
           split: option.splits dest: in_set_takeD in_set_dropD)

lemma deleteRecords_inv: "storeInvariant host s \<Longrightarrow> storeInvariant host (deleteRecords cids s)"
  by (simp add: deleteRecords_def storeInvariant_def list_all_iff)

lemma addRecord_inv: "storeInvariant host s \<Longrightarrow> storeInvariant host (addRecord host r s)"
  by (simp add: addRecord_def storeInvariant_def withComputedFields_current)

lemma updateFilter_inv: "storeInvariant host s \<Longrightarrow> storeInvariant host (updateFilter f v s)"
  by (simp add: updateFilter_def storeInvariant_def split: option.splits)

lemma clearFilters_inv: "storeInvariant host s \<Longrightarrow> storeInvariant host (clearFilters s)"
  by (simp add: clearFilters_def storeInvariant_def)

lemma perform_inv: "storeInvariant host s \<Longrightarrow> storeInvariant host (perform host a s)"
  by (cases a)
     (simp_all add: loadData_inv updateRecord_inv deleteRecord_inv deleteRecords_inv
        addRecord_inv updateFilter_inv clearFilters_inv)

text \<open>
  Claim C3. If every stored record has \<open>month = getMonthName(startDate)\<close> and
  \<open>length = calculateDaysBetween(startDate, endDate)\<close>, then so has every stored record
  after any sequence of store operations (load, whether its generation returns or throws,
  updateRecord, addRecord, deleteRecord, deleteRecords, and the filter operations). The
  initial store is empty, so the invariant holds in every reachable state; a record that
  enters the store through load, updateRecord or addRecord has both fields recomputed
  from its own dates.
\<close>

theorem computed_fields_invariant:
  assumes "storeInvariant host s"
  shows "storeInvariant host (run host acts s)"
  using assms by (induction acts arbitrary: s) (simp_all add: perform_inv)

theorem computed_fields_invariant_witness:
  "storeInvariant hostUTC initialStore \<and>
   storeInvariant hostUTC
     (run hostUTC
        [AddRecord recordA,
         UpdateRecord (recordA\<lparr>startDate := ''2024-06-01'', endDate := ''2024-06-03''\<rparr>)]
        initialStore)"
proof -
  have h: "storeInvariant hostUTC initialStore"
    by (simp add: storeInvariant_def initialStore_def)
  show ?thesis
    using h computed_fields_invariant [OF h, of "[AddRecord recordA,
      UpdateRecord (recordA\<lparr>startDate := ''2024-06-01'', endDate := ''2024-06-03''\<rparr>)]"]
    by simp
qed

section \<open>A failed load\<close>

text \<open>
  Claim C5. If the generation throws during \<open>loadData(count)\<close>, then afterwards the
  error state holds the failure message (the message of the thrown \<open>Error\<close>, or
  \<open>Failed to load data\<close> for any other thrown value), the loading flag is cleared,
  and the record collection is the one from before the call.
\<close>

theorem loadData_failure:
  assumes "gen count = Inl e"
  shows "error (loadData host gen count s) =
           Some (case e of JsError m \<Rightarrow> m | JsThrown \<Rightarrow> ''Failed to load data'') \<and>
         isLoading (loadData host gen count s) = False \<and>
         rawData (loadData host gen count s) = rawData s"
  using assms by (simp add: loadData_def)

theorem loadData_failure_witness:
  "error (loadData hostUTC (\<lambda>_. Inl (JsError ''Invalid array length'')) 7
            (addRecord hostUTC recordA initialStore)) = Some ''Invalid array length'' \<and>
   isLoading (loadData hostUTC (\<lambda>_. Inl (JsError ''Invalid array length'')) 7
            (addRecord hostUTC recordA initialStore)) = False \<and>
   rawData (loadData hostUTC (\<lambda>_. Inl (JsError ''Invalid array length'')) 7
            (addRecord hostUTC recordA initialStore))
     = rawData (addRecord hostUTC recordA initialStore)"
  using loadData_failure [of "\<lambda>_. Inl (JsError ''Invalid array length'')" 7
      "JsError ''Invalid array length''" hostUTC "addRecord hostUTC recordA initialStore"]
  by simp

section \<open>Bulk update of a single record\<close>

text \<open>
  Claim C2. \<open>bulkUpdate([recordA], {discountPercent: 50}, cb)\<close> invokes \<open>cb\<close> exactly
  once, with the record that equals \<open>recordA\<close> in every field except \<open>percent\<close>, which is
  50. When that invocation returns, the operation resolves, \<open>operationProgress\<close> is 0,
  \<open>isProcessing\<close> is cleared and \<open>lastOperationResult\<close> is
  \<open>Successfully updated 1 records\<close>, which contains \<open>Successfully updated 1\<close>.
\<close>

theorem bulkUpdate_single_percent:
  "callbackCalls (bulkUpdate [r] (percentOnly 50) cb w st) = [r\<lparr>percent := 50\<rparr>] \<and>
   (fst (cb (r\<lparr>percent := 50\<rparr>) w) = None \<longrightarrow>
      rejection (bulkUpdate [r] (percentOnly 50) cb w st) = None \<and>
      callerState (bulkUpdate [r] (percentOnly 50) cb w st) = snd (cb (r\<lparr>percent := 50\<rparr>) w) \<and>
      isProcessing (finalState (bulkUpdate [r] (percentOnly 50) cb w st)) = False \<and>
      operationProgress (finalState (bulkUpdate [r] (percentOnly 50) cb w st)) = 0 \<and>
      lastOperationResult (finalState (bulkUpdate [r] (percentOnly 50) cb w st))
        = Some ''Successfully updated 1 records'' \<and>
      includes_str ''Successfully updated 1 records'' ''Successfully updated 1'')"
proof -
  have m: "mergeUpdate (percentOnly 50) r = r\<lparr>percent := 50\<rparr>"
    by (simp add: mergeUpdate_def percentOnly_def given_def)
  have one: "string_of_nat (Suc 0) = ''1''"
    by (simp add: string_of_nat.simps digit_char_def)
  obtain e w' where cb: "cb (r\<lparr>percent := 50\<rparr>) w = (e, w')"
    by (cases "cb (r\<lparr>percent := 50\<rparr>) w")
  show ?thesis
    by (cases e)
       (simp_all add: bulkUpdate_def m cb one callbackCalls_def rejection_def callerState_def
          finalState_def)
qed

theorem bulkUpdate_single_percent_witness:
  "fst (logCall (recordA\<lparr>percent := 50\<rparr>) []) = None \<and>
   callbackCalls (bulkUpdate [recordA] (percentOnly 50) logCall [] idleBulk)
     = [recordA\<lparr>percent := 50\<rparr>] \<and>
   callerState (bulkUpdate [recordA] (percentOnly 50) logCall [] idleBulk)
     = [recordA\<lparr>percent := 50\<rparr>] \<and>
   operationProgress (finalState (bulkUpdate [recordA] (percentOnly 50) logCall [] idleBulk)) = 0 \<and>
   lastOperationResult (finalState (bulkUpdate [recordA] (percentOnly 50) logCall [] idleBulk))
     = Some ''Successfully updated 1 records''"
  using bulkUpdate_single_percent [of recordA logCall "[]" idleBulk]
  by (simp add: logCall_def)

section \<open>Empty selections, and bulk deletion\<close>

text \<open>
  Claim C6. On an empty selection \<open>bulkDelete\<close>, \<open>bulkUpdate\<close> and \<open>exportToCSV\<close>
  each reject with their error, invoke no callback and leave \<open>isProcessing\<close>,
  \<open>operationProgress\<close> and \<open>lastOperationResult\<close> (and the caller's state) as they
  were. On a non-empty selection \<open>bulkDelete\<close> invokes its callback exactly once, with
  the list of the client ids of the selected records: the caller's state afterwards is
  the one that single invocation leaves, the operation rejects exactly when the
  invocation throws, and the flags are reset. For the selection of one record with
  client id \<open>X\<close> that is the single invocation \<open>cb(['X'])\<close>.
\<close>

theorem empty_selection_and_bulkDelete:
  "bulkDelete [] onDelete w st = (Some (JsError ''No records selected for deletion''), [], w, st) \<and>
   bulkUpdate [] updateData onUpdate w st
     = (Some (JsError ''No records selected for bulk update''), [], w, st) \<and>
   exportToCSV host nowISO save [] filename w st = (Some (JsError ''No records to export''), [], w, st) \<and>
   (records \<noteq> [] \<longrightarrow>
      callbackCalls (bulkDelete records onDelete w st) = [map clientId records] \<and>
      callerState (bulkDelete records onDelete w st) = snd (onDelete (map clientId records) w) \<and>
      rejection (bulkDelete records onDelete w st) = fst (onDelete (map clientId records) w) \<and>
      isProcessing (finalState (bulkDelete records onDelete w st)) = False \<and>
      operationProgress (finalState (bulkDelete records onDelete w st)) = 0) \<and>
   callbackCalls (bulkDelete [r\<lparr>clientId := ''X''\<rparr>] onDelete w st) = [[''X'']] \<and>
   callerState (bulkDelete [r\<lparr>clientId := ''X''\<rparr>] onDelete w st) = snd (onDelete [''X''] w) \<and>
   rejection (bulkDelete [r\<lparr>clientId := ''X''\<rparr>] onDelete w st) = fst (onDelete [''X''] w)"
proof -
  have del:
    "callbackCalls (bulkDelete rs onDelete w st) = [map clientId rs] \<and>
     callerState (bulkDelete rs onDelete w st) = snd (onDelete (map clientId rs) w) \<and>
     rejection (bulkDelete rs onDelete w st) = fst (onDelete (map clientId rs) w) \<and>
     isProcessing (finalState (bulkDelete rs onDelete w st)) = False \<and>
     operationProgress (finalState (bulkDelete rs onDelete w st)) = 0"
    if "rs \<noteq> []" for rs
  proof -
    obtain e w' where cb: "onDelete (map clientId rs) w = (e, w')"
      by (cases "onDelete (map clientId rs) w")
    show ?thesis
      using that
      by (cases e)
         (simp_all add: bulkDelete_def cb callbackCalls_def callerState_def rejection_def
            finalState_def Let_def)
  qed
  show ?thesis
    using del [of records] del [of "[r\<lparr>clientId := ''X''\<rparr>]"]
    by (simp add: bulkDelete_def bulkUpdate_def exportToCSV_def)
qed

theorem empty_selection_and_bulkDelete_witness:
  "[recordA, recordA\<lparr>clientId := ''Y''\<rparr>] \<noteq> [] \<and>
   callbackCalls (bulkDelete [recordA, recordA\<lparr>clientId := ''Y''\<rparr>] logCall [] idleBulk)
     = [[''X'', ''Y'']] \<and>
   callerState (bulkDelete [recordA, recordA\<lparr>clientId := ''Y''\<rparr>] logCall [] idleBulk)
     = [[''X'', ''Y'']] \<and>
   rejection (bulkDelete [recordA, recordA\<lparr>clientId := ''Y''\<rparr>] logCall [] idleBulk) = None"
  using empty_selection_and_bulkDelete [where records = "[recordA, recordA\<lparr>clientId := ''Y''\<rparr>]"
      and onDelete = logCall and w = "[]" and st = idleBulk]
  by (simp add: recordA_def logCall_def)

section \<open>Evaluations shared by the sections below\<close>

lemma string_of_int_0: "string_of_int 0 = ''0''"
  by (simp add: string_of_int_def string_of_nat.simps digit_char_def)

lemma zero_days: "calculateDaysBetween hostUTC ''2024-05-10'' ''2024-05-10'' = 0"
  by code_simp

lemma may: "getMonthName hostUTC ''2024-05-10'' = ''May''"
  by code_simp

lemma iso_0510: "isoDateOnly ''2024-05-10'' = Some 1715299200000"
  by code_simp

lemma iso_0501: "isoDateOnly ''2024-05-01'' = Some 1714521600000"
  by code_simp

lemma iso_0101: "isoDateOnly ''2024-01-01'' = Some 1704067200000"
  by code_simp

lemma iso_1345: "isoDateOnly ''2024-13-45'' = None"
  by code_simp

lemma pat_0510: "matchesDatePattern ''2024-05-10''"
  by code_simp

lemma pat_0501: "matchesDatePattern ''2024-05-01''"
  by code_simp

lemma pat_0101: "matchesDatePattern ''2024-01-01''"
  by code_simp

lemma pat_1345: "matchesDatePattern ''2024-13-45''"
  by code_simp

lemma pat_empty: "\<not> matchesDatePattern []"
  by (simp add: matchesDatePattern_def)

section \<open>The filter options\<close>

lemma set_set_add: "set (set_add v vs) = insert v (set vs)"
  by (auto simp add: set_add_def)

lemma set_collect:
  "set (foldl (\<lambda>vals r. let v = f r in if v \<noteq> [] then set_add v vals else vals) acc xs)
     = set acc \<union> {v. v \<noteq> [] \<and> v \<in> f ` set xs}"
  by (induction xs arbitrary: acc) (auto simp add: Let_def set_set_add)

lemma set_getUniqueValues:
  "set (getUniqueValues host field s)
     = {v. v \<noteq> [] \<and> v \<in> uniqueValueOf host field ` set (rawData s)}"
  by (simp add: getUniqueValues_def set_collect)

lemma uniqueValueOf_falsy:
  assumes "field \<noteq> ''month''" "field \<noteq> ''length''"
    and "getProp r field = JSString [] \<or> getProp r field = JSNumber 0"
  shows "uniqueValueOf host field r = []"
  using assms by (auto simp add: uniqueValueOf_def or_empty_def)

text \<open>
  Claim C10. The result of \<open>getUniqueValues(field)\<close> never contains the empty string.
  For a field other than the computed \<open>month\<close> and \<open>length\<close>, a record whose value
  is the empty string or the number 0 contributes no entry: the result is the same with and
  without that record (so a record with an empty comment, or with percent 0, is invisible
  in that field's options). For \<open>length\<close>, a stored record whose computed length is
  0 makes \<open>0\<close> an entry of the result.
\<close>

theorem getUniqueValues_skips_empty:
  "[] \<notin> set (getUniqueValues host field s) \<and>
   (field \<noteq> ''month'' \<and> field \<noteq> ''length'' \<and>
    (getProp r field = JSString [] \<or> getProp r field = JSNumber 0) \<longrightarrow>
      getUniqueValues host field (s\<lparr>rawData := xs @ r # ys\<rparr>)
        = getUniqueValues host field (s\<lparr>rawData := xs @ ys\<rparr>)) \<and>
   (r' \<in> set (rawData s) \<and> calculateDaysBetween host (startDate r') (endDate r') = 0 \<longrightarrow>
      ''0'' \<in> set (getUniqueValues host ''length'' s))"
proof (intro conjI impI)
  show "[] \<notin> set (getUniqueValues host field s)"
    by (simp add: set_getUniqueValues)
next
  assume "field \<noteq> ''month'' \<and> field \<noteq> ''length'' \<and>
    (getProp r field = JSString [] \<or> getProp r field = JSNumber 0)"
  then have "uniqueValueOf host field r = []"
    by (simp add: uniqueValueOf_falsy)
  then show "getUniqueValues host field (s\<lparr>rawData := xs @ r # ys\<rparr>)
        = getUniqueValues host field (s\<lparr>rawData := xs @ ys\<rparr>)"
    by (simp add: getUniqueValues_def)
next
  assume a: "r' \<in> set (rawData s) \<and> calculateDaysBetween host (startDate r') (endDate r') = 0"
  then have "uniqueValueOf host ''length'' r' = ''0''"
    by (simp add: uniqueValueOf_def string_of_int_0)
  with a show "''0'' \<in> set (getUniqueValues host ''length'' s)"
    by (force simp add: set_getUniqueValues)
qed

theorem getUniqueValues_skips_empty_witness:
  "getProp zeroRecord ''percent'' = JSNumber 0 \<and>
   zeroRecord \<in> set (rawData (initialStore\<lparr>rawData := [recordA, zeroRecord]\<rparr>)) \<and>
   calculateDaysBetween hostUTC (startDate zeroRecord) (endDate zeroRecord) = 0 \<and>
   getUniqueValues hostUTC ''percent'' (initialStore\<lparr>rawData := [recordA] @ zeroRecord # []\<rparr>)
     = getUniqueValues hostUTC ''percent'' (initialStore\<lparr>rawData := [recordA] @ []\<rparr>) \<and>
   ''0'' \<in> set (getUniqueValues hostUTC ''length'' (initialStore\<lparr>rawData := [recordA, zeroRecord]\<rparr>))"
proof -
  have p: "getProp zeroRecord ''percent'' = JSNumber 0"
    by (simp add: getProp_def zeroRecord_def)
  have z: "calculateDaysBetween hostUTC (startDate zeroRecord) (endDate zeroRecord) = 0"
    by (simp add: zeroRecord_def recordA_def zero_days)
  have m: "zeroRecord \<in> set (rawData (initialStore\<lparr>rawData := [recordA, zeroRecord]\<rparr>))"
    by simp
  show ?thesis
    using p z m
      getUniqueValues_skips_empty [of hostUTC "''percent''" "initialStore\<lparr>rawData := [recordA, zeroRecord]\<rparr>"
        zeroRecord "[recordA]" "[]" zeroRecord]
    by simp
qed

section \<open>The filtered view\<close>

lemma applyFilterEntry_simps:
  "applyFilterEntry xs (field, None) = xs"
  "applyFilterEntry xs (field, Some []) = xs"
  "vs \<noteq> [] \<Longrightarrow> applyFilterEntry xs (field, Some vs) = filter (passesFilter field vs) xs"
  by (simp_all add: applyFilterEntry_def)

lemma foldl_applyFilterEntry:
  "foldl applyFilterEntry xs fs
     = filter (\<lambda>r. list_all (\<lambda>(field, vals). passesFilter field vals r)
          (concat (map (\<lambda>(field, vals). case vals of
                          Some vs \<Rightarrow> if vs \<noteq> [] then [(field, vs)] else []
                        | None \<Rightarrow> []) fs))) xs"
proof (induction fs arbitrary: xs)
  case Nil
  show ?case by simp
next
  case (Cons f fs)
  obtain field vals where f: "f = (field, vals)" by (cases f)
  show ?case
  proof (cases vals)
    case None
    then show ?thesis by (simp add: f Cons.IH applyFilterEntry_simps)
  next
    case (Some vs)
    then show ?thesis
      by (cases "vs = []") (auto simp add: f Cons.IH applyFilterEntry_simps intro: filter_cong)
  qed
qed

lemma filteredData_no_filter: "filters s = [] \<Longrightarrow> filteredData s = rawData s"
  by (simp add: filteredData_def)

lemma filteredData_filters:
  "filteredData s
     = filter (\<lambda>r. list_all (\<lambda>(field, vals). passesFilter field vals r) (activeFilters s))
         (rawData s)"
  by (simp add: filteredData_def foldl_applyFilterEntry activeFilters_def)

lemma passesFilter_accepts:
  assumes "truthy (getProp r field) \<or> getProp r field = JSString []"
  shows "passesFilter field vals r = accepts field vals r"
  using assms by (auto simp add: passesFilter_def accepts_def fieldValue_def stringified_def or_empty_def)

lemma filteredData_accepts:
  assumes "\<And>r field vals. r \<in> set (rawData s) \<Longrightarrow> (field, vals) \<in> set (activeFilters s) \<Longrightarrow>
             truthy (getProp r field) \<or> getProp r field = JSString []"
  shows "filteredData s
     = filter (\<lambda>r. list_all (\<lambda>(field, vals). accepts field vals r) (activeFilters s)) (rawData s)"
  unfolding filteredData_filters
  by (rule filter_cong) (auto simp add: list_all_iff passesFilter_accepts assms)

text \<open>
  Claim C1, at a store the program can reach: one record that starts and ends on the same
  day (so its stored \<open>length\<close> is 0) and the filter \<open>length: ['0']\<close>, the option
  \<open>getUniqueValues('length')\<close> offers. The stringified length \<open>0\<close> of the record
  contains the accepted value \<open>0\<close>, yet the filtered view is empty: the fallback
  \<open>|| ''\<close> replaces the number 0 by the empty string before it is stringified. With no
  filter the view is the raw collection, and for records whose filtered fields are
  non-zero numbers or strings the view is exactly the claimed subset
  (\<open>filteredData_no_filter\<close>, \<open>filteredData_accepts\<close>).
\<close>

theorem filteredData_drops_zero_length:
  "rawData zeroLengthStore = [zeroRecord] \<and>
   activeFilters zeroLengthStore = [(''length'', [''0''])] \<and>
   accepts ''length'' [''0''] zeroRecord \<and>
   filteredData zeroLengthStore = [] \<and>
   getUniqueValues hostUTC ''length'' zeroLengthStore = [''0'']"
proof -
  have raw: "rawData zeroLengthStore = [zeroRecord]"
    by (simp add: zeroLengthStore_def addRecord_def updateFilter_def initialStore_def
        withComputedFields_def zeroRecord_def recordA_def zero_days may)
  have fl: "filters zeroLengthStore = [(''length'', Some [''0''])]"
    by (simp add: zeroLengthStore_def addRecord_def updateFilter_def initialStore_def)
  have p: "getProp zeroRecord ''length'' = JSNumber 0"
    by (simp add: getProp_def zeroRecord_def)
  have u: "uniqueValueOf hostUTC ''length'' zeroRecord = ''0''"
    by (simp add: uniqueValueOf_def zeroRecord_def recordA_def zero_days string_of_int_0)
  have lower: "toLowerCase ''0'' = ''0''" "toLowerCase [] = []"
    by (simp_all add: toLowerCase_def toLowerChar_def isUpperAZ_def)
  show ?thesis
    by (simp add: raw fl activeFilters_def accepts_def stringified_def p string_of_int_0 lower
        filteredData_def applyFilterEntry_def passesFilter_def fieldValue_def or_empty_def
        getUniqueValues_def u set_add_def)
qed

section \<open>Validation of a bulk update\<close>

lemma percent_check_iff:
  assumes "p \<noteq> NaN" and "p \<noteq> EmptyString"
  shows "(\<not> (js_lt p 0 \<or> js_gt p 100)) = inPercentRange p"
  using assms by (cases p) (auto simp add: inPercentRange_def)

lemma validate_empty_iff:
  assumes "percentIsNumber u" and "datesParse host u"
  shows "(validateBulkUpdateData host u = []) = patchValid host (dropEmptyDates u)"
proof -
  obtain dn dp sd ed where
    u: "u = \<lparr>discountName = dn, discountPercent = dp, updStartDate = sd, updEndDate = ed\<rparr>"
    by (cases u) simp
  have pc: "(\<not> (js_lt p 0 \<or> js_gt p 100)) = inPercentRange p" if "dp = Some p" for p
    using that assms(1) percent_check_iff [of p]
    by (cases p) (simp_all add: percentIsNumber_def u)
  show ?thesis
    using assms(2) pc unfolding u
    by (cases dp; cases sd; cases ed)
       (auto simp add: validateBulkUpdateData_def patchValid_def dropEmptyDates_def
          emptyAsAbsent_def given_def strictlyFollows_def datesParse_def parsesIfPattern_def
          pat_empty split: option.splits)
qed

text \<open>
  Claim C7, amended. For every patch whose percent, when present, is a number other than
  \<open>NaN\<close>, and in which each date that matches the \<open>yyyy-mm-dd\<close> pattern is a date
  the host can parse, \<open>validateBulkUpdateData\<close> returns the empty list if and only if:
  the percent, when present, lies in \<open>[0, 100]\<close>; the start and the end date, when
  present and not the empty string, each match the pattern; and when both are present and
  not empty, the end date strictly follows the start date. And
  \<open>validateBulkUpdateData({startDate:'2024-05-10', endDate:'2024-05-01'})\<close> is the
  one-element list with the end-before-start error, on every host.
\<close>

theorem validateBulkUpdateData_valid_iff:
  "(percentIsNumber u \<and> datesParse host u \<longrightarrow>
      (validateBulkUpdateData host u = []) = patchValid host (dropEmptyDates u)) \<and>
   validateBulkUpdateData host (datesPatch ''2024-05-10'' ''2024-05-01'')
     = [''End date must be after start date'']"
  by (simp add: validate_empty_iff)
     (simp add: validateBulkUpdateData_def datesPatch_def given_def newDate_def
        iso_0510 iso_0501 pat_0510 pat_0501)

theorem validateBulkUpdateData_valid_iff_witness:
  "percentIsNumber fullPatch \<and> datesParse hostUTC fullPatch \<and>
   validateBulkUpdateData hostUTC fullPatch = [] \<and>
   patchValid hostUTC (dropEmptyDates fullPatch)"
proof -
  have n: "percentIsNumber fullPatch"
    by (simp add: percentIsNumber_def fullPatch_def)
  have h: "datesParse hostUTC fullPatch"
    by (simp add: datesParse_def parsesIfPattern_def fullPatch_def newDate_def iso_0510 iso_0501)
  have v: "patchValid hostUTC (dropEmptyDates fullPatch)"
    by (simp add: patchValid_def inPercentRange_def dropEmptyDates_def emptyAsAbsent_def given_def
        fullPatch_def strictlyFollows_def newDate_def iso_0510 iso_0501 pat_0510 pat_0501)
  show ?thesis
    using n h v validateBulkUpdateData_valid_iff [of fullPatch hostUTC]
    by simp
qed

text \<open>
  The claim as stated fails in three places. A patch with an empty start date (the state of
  an untouched form field) passes, though the empty string is present and does not match
  the pattern. A patch whose start date matches the pattern but is no calendar date
  passes too, though its end date does not follow its start date: the comparison of an
  invalid date is false. And a patch whose percent is \<open>NaN\<close>, or the empty string of
  a cleared number input, passes, though it does not lie in \<open>[0, 100]\<close>: both
  comparisons of the range check are false.
\<close>

theorem validateBulkUpdateData_counterexample:
  "validateBulkUpdateData hostUTC (datesPatch [] ''2024-05-01'') = [] \<and>
   \<not> patchValid hostUTC (datesPatch [] ''2024-05-01'') \<and>
   validateBulkUpdateData hostUTC (datesPatch ''2024-13-45'' ''2024-01-01'') = [] \<and>
   \<not> patchValid hostUTC (datesPatch ''2024-13-45'' ''2024-01-01'') \<and>
   validateBulkUpdateData hostUTC (percentPatch NaN) = [] \<and>
   \<not> patchValid hostUTC (percentPatch NaN) \<and>
   validateBulkUpdateData hostUTC (percentPatch EmptyString) = [] \<and>
   \<not> patchValid hostUTC (percentPatch EmptyString)"
  by (simp add: validateBulkUpdateData_def patchValid_def inPercentRange_def datesPatch_def
      percentPatch_def given_def newDate_def strictlyFollows_def hostUTC_def
      iso_0501 iso_0101 iso_1345 pat_0501 pat_0101 pat_1345 pat_empty)

section \<open>The month name\<close>

lemma getMonthName_unparseable: "newDate host s = None \<Longrightarrow> getMonthName host s = []"
  by (simp add: getMonthName_def)

text \<open>
  Claim C9, at a well-formed date on a host five hours behind UTC: the date string
  \<open>2024-05-01\<close> is parsed as midnight UTC and its month is read in local time, where
  it is still 30 April, so \<open>getMonthName\<close> returns \<open>April\<close> for a date in May. On a
  host at UTC it returns \<open>May\<close>. For an unparseable input the result is the empty
  string on every host (\<open>getMonthName_unparseable\<close>).
\<close>

theorem getMonthName_previous_month:
  "matchesDatePattern ''2024-05-01'' \<and> isoDateOnly ''2024-05-01'' \<noteq> None \<and>
   getMonthName hostNewYork ''2024-05-01'' = ''April'' \<and>
   getMonthName hostUTC ''2024-05-01'' = ''May''"
  by code_simp

section \<open>Uniqueness of the client id\<close>

lemma digit_char_in: "digit_char n \<in> set ''0123456789''"
  unfolding digit_char_def by (rule nth_mem) simp

lemma set_string_of_nat: "set (string_of_nat n) \<subseteq> set ''0123456789''"
proof (induction n rule: string_of_nat.induct)
  case (1 n)
  show ?case
  proof (cases "n < 10")
    case True
    then have "string_of_nat n = [digit_char n]" by (simp add: string_of_nat.simps)
    with digit_char_in [of n] show ?thesis by simp
  next
    case False
    then have "string_of_nat n = string_of_nat (n div 10) @ [digit_char (n mod 10)]"
      by (subst string_of_nat.simps) simp
    with 1 False digit_char_in [of "n mod 10"] show ?thesis by simp
  qed
qed

lemma digit_val_digit_char: "n < 10 \<Longrightarrow> digit_val (digit_char n) = n"
proof -
  assume "n < 10"
  then have "n \<in> {0, 1, 2, 3, 4, 5, 6, 7, 8, 9}" by auto
  then show ?thesis
    by (auto simp add: digit_val_def digit_char_def)
qed

lemma nat_of_digits_snoc: "nat_of_digits (s @ [c]) = 10 * nat_of_digits s + digit_val c"
  by (simp add: nat_of_digits_def)

lemma nat_of_digits_string_of_nat: "nat_of_digits (string_of_nat n) = n"
proof (induction n rule: string_of_nat.induct)
  case (1 n)
  show ?case
  proof (cases "n < 10")
    case True
    then have "string_of_nat n = [digit_char n]" by (simp add: string_of_nat.simps)
    with True show ?thesis by (simp add: nat_of_digits_def digit_val_digit_char)
  next
    case False
    then have "string_of_nat n = string_of_nat (n div 10) @ [digit_char (n mod 10)]"
      by (subst string_of_nat.simps) simp
    with 1 False show ?thesis
      by (simp add: nat_of_digits_snoc digit_val_digit_char)
  qed
qed

lemma foldl_zeros:
  "foldl (\<lambda>a c. 10 * a + digit_val c) 0 (replicate k (CHR ''0'')) = 0"
  by (induction k) (simp_all add: digit_val_def)

lemma nat_of_digits_padStart: "nat_of_digits (padStart k (CHR ''0'') (string_of_nat n)) = n"
  using nat_of_digits_string_of_nat [of n]
  by (simp add: padStart_def nat_of_digits_def foldl_zeros)

lemma padStart_no_underscore: "CHR ''_'' \<notin> set (padStart k (CHR ''0'') (string_of_nat n))"
  using set_string_of_nat [of n] by (auto simp add: padStart_def)

lemma last_segment_eq:
  assumes "u \<notin> set a" "u \<notin> set b" and eq: "x @ u # a = y @ u # b"
  shows "a = b"
proof -
  have "rev a @ u # rev x = rev b @ u # rev y"
    using arg_cong [OF eq, of rev] by simp
  then have "takeWhile (\<lambda>c. c \<noteq> u) (rev a @ u # rev x) = takeWhile (\<lambda>c. c \<noteq> u) (rev b @ u # rev y)"
    by simp
  moreover have "takeWhile (\<lambda>c. c \<noteq> u) (rev a @ u # rev x) = rev a"
    using assms(1) by (subst takeWhile_append2) auto
  moreover have "takeWhile (\<lambda>c. c \<noteq> u) (rev b @ u # rev y) = rev b"
    using assms(2) by (subst takeWhile_append2) auto
  ultimately show ?thesis by simp
qed

lemma generated_clientId_inj:
  assumes "clientId (generateDiscountRecord d i) = clientId (generateDiscountRecord d' j)"
  shows "i = j"
proof -
  let ?pi = "padStart 6 (CHR ''0'') (string_of_nat i)"
  let ?pj = "padStart 6 (CHR ''0'') (string_of_nat j)"
  from assms have "filter isUpperAZ (randomChoice (drawClient d) CLIENT_OPTIONS) @ CHR ''_'' # ?pi
      = filter isUpperAZ (randomChoice (drawClient d') CLIENT_OPTIONS) @ CHR ''_'' # ?pj"
    by (simp add: generateDiscountRecord_def Let_def)
  then have "?pi = ?pj"
    by (rule last_segment_eq [OF padStart_no_underscore padStart_no_underscore])
  then have "nat_of_digits ?pi = nat_of_digits ?pj" by simp
  then show ?thesis by (simp add: nat_of_digits_padStart)
qed

lemma generateMockData_distinct: "distinct (map clientId (generateMockData rnd count))"
proof -
  have "inj_on (\<lambda>i. clientId (generateDiscountRecord (rnd i) i)) (set [0 ..< nat count])"
    by (rule inj_onI) (rule generated_clientId_inj)
  then show ?thesis
    by (simp add: generateMockData_def comp_def distinct_map)
qed

lemma withComputedFields_clientId [simp]: "clientId (withComputedFields host r) = clientId r"
  by (simp add: withComputedFields_def)

lemma loadData_unique: "uniqueClientIds s \<Longrightarrow> uniqueClientIds (loadData host (generateData rnd) count s)"
  using generateMockData_distinct [of rnd count]
  by (simp add: loadData_def generateData_def generateTestData_def uniqueClientIds_def comp_def)

lemma loadData_throws_unique: "uniqueClientIds s \<Longrightarrow> uniqueClientIds (loadData host (\<lambda>_. Inl e) count s)"
  by (simp add: loadData_def uniqueClientIds_def)

lemma findIndex_Some: "findIndex p xs = Some i \<Longrightarrow> i < length xs \<and> p (xs ! i)"
  by (induction xs arbitrary: i) (auto split: if_splits option.splits)

lemma updateRecord_clientIds: "map clientId (rawData (updateRecord host r s)) = map clientId (rawData s)"
proof (cases "findIndex (\<lambda>x. clientId x = clientId r) (rawData s)")
  case None
  then show ?thesis by (simp add: updateRecord_def)
next
  case (Some i)
  from findIndex_Some [OF Some] have "i < length (rawData s)" "clientId (rawData s ! i) = clientId r"
    by simp_all
  then have "(map clientId (rawData s))[i := clientId r] = map clientId (rawData s)"
    by (metis list_update_id nth_map)
  with Some show ?thesis by (simp add: updateRecord_def map_update)
qed

lemma updateRecord_unique: "uniqueClientIds s \<Longrightarrow> uniqueClientIds (updateRecord host r s)"
  by (simp add: uniqueClientIds_def updateRecord_clientIds)

lemma distinct_take_drop:
  assumes "distinct xs"
  shows "distinct (take i xs @ drop (Suc i) xs)"
proof -
  have "distinct (take i xs @ drop i xs)"
    using assms by simp
  then have disj: "set (take i xs) \<inter> set (drop i xs) = {}"
    unfolding distinct_append by blast
  have sub: "set (drop (Suc i) xs) \<subseteq> set (drop i xs)"
    by (rule set_drop_subset_set_drop) simp
  have "distinct (take i xs)" "distinct (drop (Suc i) xs)"
    using assms by simp_all
  with disj sub show ?thesis
    unfolding distinct_append by blast
qed

lemma deleteRecord_unique:
  assumes "uniqueClientIds s"
  shows "uniqueClientIds (deleteRecord cid s)"
proof (cases "findIndex (\<lambda>r. clientId r = cid) (rawData s)")
  case None
  with assms show ?thesis by (simp add: deleteRecord_def)
next
  case (Some i)
  have "map clientId (take i (rawData s) @ drop (Suc i) (rawData s))
          = take i (map clientId (rawData s)) @ drop (Suc i) (map clientId (rawData s))"
    by (simp add: take_map drop_map)
  with Some assms distinct_take_drop [of "map clientId (rawData s)" i] show ?thesis
    by (simp add: deleteRecord_def uniqueClientIds_def)
qed

lemma deleteRecords_unique: "uniqueClientIds s \<Longrightarrow> uniqueClientIds (deleteRecords cids s)"
  by (simp add: uniqueClientIds_def deleteRecords_def distinct_map_filter)

lemma addRecord_unique:
  "uniqueClientIds s \<Longrightarrow> clientId r \<notin> set (map clientId (rawData s)) \<Longrightarrow>
   uniqueClientIds (addRecord host r s)"
  by (simp add: uniqueClientIds_def addRecord_def)

lemma filter_ops_unique:
  "uniqueClientIds (updateFilter f v s) = uniqueClientIds s"
  "uniqueClientIds (clearFilters s) = uniqueClientIds s"
  by (simp_all add: uniqueClientIds_def updateFilter_def clearFilters_def split: option.splits)

lemma run_unique:
  assumes "uniqueClientIds s" and "addsAreFresh host acts s"
  shows "uniqueClientIds (run host acts s)"
  using assms
proof (induction acts arbitrary: s)
  case Nil
  then show ?case by simp
next
  case (Cons a acts)
  from Cons.prems have "uniqueClientIds (perform host a s)"
    by (cases a)
       (simp_all add: loadData_unique loadData_throws_unique updateRecord_unique
          deleteRecord_unique deleteRecords_unique addRecord_unique filter_ops_unique)
  with Cons show ?case by simp
qed

lemma loadData_establishes_unique:
  "uniqueClientIds (loadData host (generateData rnd) count s)"
  using generateMockData_distinct [of rnd count]
  by (simp add: loadData_def generateData_def generateTestData_def uniqueClientIds_def comp_def)

text \<open>
  Claim C4, amended. After a load the client ids of the stored records are pairwise
  distinct, whatever the random draws and the count, because each id ends in the record's
  index. From a store with pairwise distinct client ids, every sequence of store operations
  in which each \<open>addRecord\<close> adds a client id that is not stored at that moment leads to
  a store with pairwise distinct client ids; \<open>updateRecord\<close>, \<open>deleteRecord\<close>,
  \<open>deleteRecords\<close> and load preserve uniqueness without any condition.
\<close>

theorem clientId_unique_with_fresh_adds:
  "uniqueClientIds (loadData host (generateData rnd) count s0) \<and>
   (uniqueClientIds s \<and> addsAreFresh host acts s \<longrightarrow> uniqueClientIds (run host acts s))"
  by (simp add: loadData_establishes_unique run_unique)

theorem clientId_unique_with_fresh_adds_witness:
  "uniqueClientIds initialStore \<and> addsAreFresh hostUTC sampleRun initialStore \<and>
   uniqueClientIds (run hostUTC sampleRun initialStore)"
proof -
  have u: "uniqueClientIds initialStore"
    by (simp add: uniqueClientIds_def initialStore_def)
  have f: "addsAreFresh hostUTC sampleRun initialStore"
    by code_simp
  show ?thesis
    using u f clientId_unique_with_fresh_adds [of hostUTC sampleDraws 2 initialStore initialStore sampleRun]
    by simp
qed

text \<open>
  The claim as stated fails for \<open>addRecord\<close>, which appends without looking at the
  stored ids: adding the same record twice stores its client id twice.
\<close>

theorem clientId_duplicate_after_addRecord:
  "\<not> uniqueClientIds (run hostUTC [AddRecord recordA, AddRecord recordA] initialStore)"
  by (simp add: uniqueClientIds_def addRecord_def initialStore_def)

section \<open>The CSV text can be read back\<close>

lemma special_chars_distinct:
  "comma \<noteq> dquote" "newline \<noteq> dquote" "comma \<noteq> newline"
  "dquote \<noteq> comma" "dquote \<noteq> newline" "newline \<noteq> comma"
  by (simp_all add: comma_def dquote_def newline_def)

lemma parse_end_of_text: "parseCSV_from mode field row [] = [rev (rev field # row)]"
  by simp

lemma parse_comma:
  "mode \<noteq> Quoted \<Longrightarrow>
   parseCSV_from mode field row (comma # cs) = parseCSV_from FieldStart [] (rev field # row) cs"
  by (simp add: special_chars_distinct)

lemma parse_newline:
  "mode \<noteq> Quoted \<Longrightarrow>
   parseCSV_from mode field row (newline # cs)
     = rev (rev field # row) # parseCSV_from FieldStart [] [] cs"
  by (simp add: special_chars_distinct)

lemma mode_irrelevant:
  assumes "mode \<noteq> Quoted" and "rest = [] \<or> hd rest = comma \<or> hd rest = newline"
  shows "parseCSV_from mode field row rest = parseCSV_from Unquoted field row rest"
proof (cases rest)
  case Nil
  then show ?thesis by simp
next
  case (Cons c cs)
  with assms(2) consider "c = comma" | "c = newline" by auto
  then show ?thesis
  proof cases
    case 1
    with assms(1) Cons show ?thesis
      using parse_comma [of mode field row cs] parse_comma [of Unquoted field row cs] by simp
  next
    case 2
    with assms(1) Cons show ?thesis
      using parse_newline [of mode field row cs] parse_newline [of Unquoted field row cs] by simp
  qed
qed

lemma plain_scan:
  "list_all plain v \<Longrightarrow>
   parseCSV_from Unquoted field row (v @ rest) = parseCSV_from Unquoted (rev v @ field) row rest"
  by (induction v arbitrary: field) (simp_all add: plain_def)

lemma plain_scan_start:
  assumes "list_all plain v" and "v \<noteq> []"
  shows "parseCSV_from FieldStart field row (v @ rest)
           = parseCSV_from Unquoted (rev v @ field) row rest"
proof -
  from assms(2) obtain c cs where v: "v = c # cs" by (cases v) auto
  with assms(1) have "plain c" "list_all plain cs" by simp_all
  then show ?thesis
    by (simp add: v plain_scan) (simp add: plain_def)
qed

lemma quoted_scan:
  "parseCSV_from Quoted field row
     (concat (map (\<lambda>c. if c = dquote then [dquote, dquote] else [c]) v) @ dquote # rest)
   = parseCSV_from QuoteSeen (rev v @ field) row rest"
proof (induction v arbitrary: field)
  case Nil
  show ?case by simp
next
  case (Cons c v)
  show ?case
  proof (cases "c = dquote")
    case True
    then show ?thesis using Cons.IH [of "dquote # field"] by simp
  next
    case False
    then show ?thesis using Cons.IH [of "c # field"] by simp
  qed
qed

lemma escapeCSVValue_plain: "list_all plain v \<Longrightarrow> escapeCSVValue v = v"
  by (auto simp add: escapeCSVValue_def list_all_iff plain_def)

lemma field_roundtrip:
  assumes "rest = [] \<or> hd rest = comma \<or> hd rest = newline"
  shows "parseCSV_from FieldStart [] row (escapeCSVValue v @ rest)
           = parseCSV_from Unquoted (rev v) row rest"
proof (cases "list_all plain v")
  case True
  show ?thesis
  proof (cases "v = []")
    case True
    have "parseCSV_from FieldStart [] row rest = parseCSV_from Unquoted [] row rest"
      using assms by (intro mode_irrelevant) simp_all
    with True show ?thesis
      by (simp add: escapeCSVValue_def)
  next
    case False
    with True show ?thesis
      using plain_scan_start [of v "[]" row rest] by (simp add: escapeCSVValue_plain)
  qed
next
  case False
  then have esc: "escapeCSVValue v
      = dquote # concat (map (\<lambda>c. if c = dquote then [dquote, dquote] else [c]) v) @ [dquote]"
    by (auto simp add: escapeCSVValue_def list_all_iff plain_def)
  have "parseCSV_from FieldStart [] row (escapeCSVValue v @ rest)
          = parseCSV_from QuoteSeen (rev v) row rest"
    using quoted_scan [of "[]" row v rest] by (simp add: esc)
  also have "\<dots> = parseCSV_from Unquoted (rev v) row rest"
    using assms by (intro mode_irrelevant) simp_all
  finally show ?thesis .
qed

lemma row_scan:
  assumes "vs \<noteq> []" and "rest = [] \<or> hd rest = newline"
  shows "parseCSV_from FieldStart [] row (join [comma] (map escapeCSVValue vs) @ rest)
           = parseCSV_from Unquoted (rev (last vs)) (rev (butlast vs) @ row) rest"
  using assms
proof (induction vs arbitrary: row)
  case Nil
  then show ?case by simp
next
  case (Cons v ws)
  show ?case
  proof (cases ws)
    case Nil
    with Cons.prems show ?thesis
      using field_roundtrip [of rest row v] by auto
  next
    case (Cons w ws')
    have "parseCSV_from FieldStart [] row (join [comma] (map escapeCSVValue (v # ws)) @ rest)
            = parseCSV_from FieldStart [] row
                (escapeCSVValue v @ comma # (join [comma] (map escapeCSVValue ws) @ rest))"
      by (simp add: Cons)
    also have "\<dots> = parseCSV_from Unquoted (rev v) row
                (comma # (join [comma] (map escapeCSVValue ws) @ rest))"
      by (rule field_roundtrip) simp
    also have "\<dots> = parseCSV_from FieldStart [] (v # row)
                (join [comma] (map escapeCSVValue ws) @ rest)"
      by (simp add: parse_comma)
    also have "\<dots> = parseCSV_from Unquoted (rev (last ws)) (rev (butlast ws) @ v # row) rest"
      using Cons.IH [of "v # row"] Cons.prems(2) Cons by simp
    finally show ?thesis by (simp add: Cons)
  qed
qed

lemma row_roundtrip_last:
  assumes "vs \<noteq> []"
  shows "parseCSV_from FieldStart [] [] (join [comma] (map escapeCSVValue vs)) = [vs]"
proof -
  have "parseCSV_from FieldStart [] [] (join [comma] (map escapeCSVValue vs) @ [])
          = parseCSV_from Unquoted (rev (last vs)) (rev (butlast vs) @ []) []"
    using assms by (intro row_scan) simp_all
  also have "\<dots> = [butlast vs @ [last vs]]"
    by simp
  finally show ?thesis
    using assms by simp
qed

lemma row_roundtrip_newline:
  assumes "vs \<noteq> []"
  shows "parseCSV_from FieldStart [] [] (join [comma] (map escapeCSVValue vs) @ newline # cs)
           = vs # parseCSV_from FieldStart [] [] cs"
proof -
  have "parseCSV_from FieldStart [] [] (join [comma] (map escapeCSVValue vs) @ newline # cs)
          = parseCSV_from Unquoted (rev (last vs)) (rev (butlast vs) @ []) (newline # cs)"
    using assms by (intro row_scan) simp_all
  also have "\<dots> = rev (rev (rev (last vs)) # (rev (butlast vs) @ []))
                        # parseCSV_from FieldStart [] [] cs"
    by (rule parse_newline) simp
  also have "rev (rev (rev (last vs)) # (rev (butlast vs) @ [])) = butlast vs @ [last vs]"
    by simp
  finally show ?thesis
    using assms by simp
qed

lemma rows_roundtrip:
  assumes "rows \<noteq> []" and "\<forall>vs \<in> set rows. vs \<noteq> []"
  shows "parseCSV_from FieldStart [] []
           (join [newline] (map (\<lambda>vs. join [comma] (map escapeCSVValue vs)) rows)) = rows"
  using assms
proof (induction rows)
  case Nil
  then show ?case by simp
next
  case (Cons r rs)
  show ?case
  proof (cases rs)
    case Nil
    with Cons.prems show ?thesis by (simp add: row_roundtrip_last)
  next
    case (Cons r' rs')
    with Cons.prems Cons.IH show ?thesis
      by (simp add: row_roundtrip_newline)
  qed
qed

lemma string_of_nat_plain: "list_all plain (string_of_nat n)"
proof -
  have "\<forall>c \<in> set ''0123456789''. plain c"
    by (simp add: plain_def comma_def dquote_def newline_def)
  with set_string_of_nat [of n] show ?thesis
    unfolding list_all_iff by blast
qed

lemma string_of_int_plain: "list_all plain (string_of_int i)"
proof -
  have "plain (CHR ''-'')"
    by (simp add: plain_def comma_def dquote_def newline_def)
  then show ?thesis
    by (simp add: string_of_int_def string_of_nat_plain)
qed

lemma escape_int: "escapeCSVValue (string_of_int i) = string_of_int i"
  by (rule escapeCSVValue_plain) (rule string_of_int_plain)

lemma csvRow_cells: "csvRow host r = join [comma] (map escapeCSVValue (csvCells host r))"
  unfolding csvRow_def csvCells_def Let_def list.map escape_int ..

lemma join_nonempty: "x \<noteq> [] \<Longrightarrow> join sep (x # xs) \<noteq> []"
  by (cases xs) simp_all

lemma headers_all_plain: "list_all (list_all plain) headers"
  by code_simp

lemma headers_plain: "map escapeCSVValue headers = headers"
proof (rule map_idI)
  fix h assume "h \<in> set headers"
  with headers_all_plain have "list_all plain h"
    unfolding list_all_iff by blast
  then show "escapeCSVValue h = h" by (rule escapeCSVValue_plain)
qed

lemma convertToCSV_rows:
  assumes "records \<noteq> []"
  shows "convertToCSV host records
           = join [newline] (map (\<lambda>vs. join [comma] (map escapeCSVValue vs))
               (headers # map (csvCells host) records))"
proof -
  have "csvRow host = (\<lambda>r. join [comma] (map escapeCSVValue (csvCells host r)))"
    by (rule ext) (rule csvRow_cells)
  with assms show ?thesis
    by (simp add: convertToCSV_def headers_plain comp_def)
qed

lemma headers_line_nonempty: "join [comma] headers \<noteq> []"
  by (simp add: headers_def)

lemma cells_nonempty: "csvCells host r \<noteq> []" "headers \<noteq> []"
  by (simp_all add: csvCells_def headers_def)

text \<open>
  Claim C8. For every non-empty list of records, whatever characters their fields hold
  (commas, double quotes and newlines included), reading the text produced by
  \<open>convertToCSV\<close> gives back the header row with its sixteen column names followed by
  one row per record, in order, whose sixteen fields are the record's field values
  verbatim: the fourteen stored fields, with the percent in decimal, then the computed
  month and the computed length.
\<close>

theorem csv_roundtrip:
  "records \<noteq> [] \<longrightarrow>
     parseCSV (convertToCSV host records) = headers # map (csvCells host) records"
proof
  assume ne: "records \<noteq> []"
  have nonempty: "convertToCSV host records \<noteq> []"
    using ne headers_line_nonempty by (simp add: convertToCSV_def join_nonempty)
  have "\<forall>vs \<in> set (headers # map (csvCells host) records). vs \<noteq> []"
    by (auto simp add: cells_nonempty)
  then have "parseCSV_from FieldStart [] [] (convertToCSV host records)
               = headers # map (csvCells host) records"
    unfolding convertToCSV_rows [OF ne] by (intro rows_roundtrip) simp_all
  with nonempty show "parseCSV (convertToCSV host records) = headers # map (csvCells host) records"
    by (simp add: parseCSV_def)
qed

theorem csv_roundtrip_witness:
  "[awkwardRecord, recordA] \<noteq> [] \<and>
   parseCSV (convertToCSV hostUTC [awkwardRecord, recordA])
     = headers # map (csvCells hostUTC) [awkwardRecord, recordA]"
  using csv_roundtrip [of "[awkwardRecord, recordA]" hostUTC] by simp

end
